theory Spec2Isabelle
  imports Complex_Main
begin

section \<open>Values shared by the stores and the components\<close>

text \<open>
  The repository is TypeScript. A \<^verbatim>\<open>number\<close> that the code uses as an index, a
  coordinate, a count or a colour channel is modelled as an \<open>int\<close> (integers in the range
  where IEEE doubles are exact); the value of a panel datum, which is a fraction, is a
  \<open>rat\<close> (every finite double is one). An exception is a value of \<open>js_error\<close>.
\<close>

datatype js_error =
    TypeError      \<comment> \<open>reading or writing a property of \<^verbatim>\<open>undefined\<close>\<close>
  | FetchError     \<comment> \<open>the rejection of \<^verbatim>\<open>$fetch\<close>\<close>
  | MappingError   \<comment> \<open>named by the specification only: no code path constructs it\<close>

text \<open>\<^verbatim>\<open>class ItemSize { rows: number; cols: number }\<close>\<close>

record ItemSize =
  rows :: int
  cols :: int

text \<open>\<^verbatim>\<open>interface Grid<T> { rows: number; cols: number; data: T[][] }\<close>\<close>

record 'a Grid =
  grid_rows :: int
  grid_cols :: int
  data :: "'a list list"

section \<open>The grid store (\<^verbatim>\<open>useGridStore\<close>)\<close>

text \<open>
  \<^verbatim>\<open>_size\<close> is a private ref initialised to \<^verbatim>\<open>new ItemSize(5, 9)\<close> that no code
  assigns, so its two fields are modelled as naturals; the theorems below hold for every
  pair of naturals, not only for 5 and 9. \<^verbatim>\<open>mask\<close> is exported by the store as a
  \<^verbatim>\<open>boolean[][]\<close>; the name \<open>mask\<close> is a constant of HOL, hence the suffixes.
\<close>

record grid_store =
  size_rows :: nat
  size_cols :: nat
  mask_ref :: "bool list list"

text \<open>
  \<^verbatim>\<open>Array.from({ length: rows }, () => Array(cols).fill(false))\<close>: one fresh row per index.
\<close>

definition fresh_mask :: "nat \<Rightarrow> nat \<Rightarrow> bool list list" where
  "fresh_mask r c = map (\<lambda>_. replicate c False) [0..<r]"

definition grid_store_init :: grid_store where
  "grid_store_init = \<lparr>size_rows = 5, size_cols = 9, mask_ref = fresh_mask 5 9\<rparr>"

text \<open>
  The shape invariant of the data model: \<^verbatim>\<open>data.length == rows\<close> and every row has
  length \<^verbatim>\<open>cols\<close>.
\<close>

definition mask_shape :: "grid_store \<Rightarrow> bool" where
  "mask_shape s \<longleftrightarrow>
     length (mask_ref s) = size_rows s \<and> list_all (\<lambda>row. length row = size_cols s) (mask_ref s)"

text \<open>
  \<^verbatim>\<open>
  function flipMask(x: number, y: number) {
    if (y < 0 || y >= _size.value.rows || x < 0 || x >= _size.value.cols) {
      return
    }
    mask.value[y][x] = !mask.value[y][x]
  }
  \<close>
  Past the guard, \<^verbatim>\<open>mask.value[y]\<close> is \<^verbatim>\<open>undefined\<close> when the mask has fewer rows than
  the declared size, and indexing it throws a TypeError. When the row exists but is shorter
  than \<open>x\<close>, the read gives \<^verbatim>\<open>undefined\<close>, its negation is \<^verbatim>\<open>true\<close>, and the write
  extends the row; the holes it leaves read as \<^verbatim>\<open>undefined\<close>, which is falsy, and are
  modelled as \<open>False\<close>. Neither case arises while \<open>mask_shape\<close> holds.
\<close>

definition flipMask :: "int \<Rightarrow> int \<Rightarrow> grid_store \<Rightarrow> js_error + grid_store" where
  "flipMask x y s =
     (if y < 0 \<or> y \<ge> int (size_rows s) \<or> x < 0 \<or> x \<ge> int (size_cols s) then Inr s
      else if nat y \<ge> length (mask_ref s) then Inl TypeError
      else
        let row = mask_ref s ! nat y;
            row' = (if nat x < length row then row[nat x := \<not> row ! nat x]
                    else row @ replicate (nat x - length row) False @ [True])
        in Inr (s\<lparr>mask_ref := (mask_ref s)[nat y := row']\<rparr>))"

text \<open>
  \<^verbatim>\<open>
  function reset() {
    mask.value = Array.from({ length: _size.value.rows }, () => Array(_size.value.cols).fill(false))
  }
  \<close>
\<close>

definition reset :: "grid_store \<Rightarrow> grid_store" where
  "reset s = s\<lparr>mask_ref := fresh_mask (size_rows s) (size_cols s)\<rparr>"

text \<open>
  \<^verbatim>\<open>
  function isAllMasked() {
    for (let i = 0; i < _size.value.rows; i++) {
      for (let j = 0; j < _size.value.cols; j++) {
        if (mask.value[i][j]) {
          return false
        }
      }
    }
    return true
  }
  \<close>
  \<open>cell_truthy row j\<close> is the truthiness of \<^verbatim>\<open>row[j]\<close>: past the end of the row the read
  gives \<^verbatim>\<open>undefined\<close>. \<open>row_loop\<close> is the inner loop from \<open>j\<close> on; it is \<open>True\<close> when
  the loop runs to its end and \<open>False\<close> when it hits \<^verbatim>\<open>return false\<close>. \<open>rows_loop\<close> is
  the outer loop from \<open>i\<close> on; a missing row throws at the first read of the inner loop, that
  is, when the inner loop runs at all. Each loop has one equation for the iteration, under
  the loop condition, and one for the exit, under its negation.
\<close>

definition cell_truthy :: "bool list \<Rightarrow> nat \<Rightarrow> bool" where
  "cell_truthy row j \<longleftrightarrow> j < length row \<and> row ! j"

function row_loop :: "bool list \<Rightarrow> nat \<Rightarrow> nat \<Rightarrow> bool" where
  "j < c \<Longrightarrow> row_loop row c j = (if cell_truthy row j then False else row_loop row c (Suc j))"
| "\<not> j < c \<Longrightarrow> row_loop row c j = True"
  by (atomize_elim, auto)
termination
  by (relation "measure (\<lambda>(row, c, j). c - j)") auto

function rows_loop :: "grid_store \<Rightarrow> nat \<Rightarrow> js_error + bool" where
  "i < size_rows s \<Longrightarrow>
     rows_loop s i =
       (if 0 < size_cols s \<and> i \<ge> length (mask_ref s) then Inl TypeError
        else if row_loop (mask_ref s ! i) (size_cols s) 0 then rows_loop s (Suc i)
        else Inr False)"
| "\<not> i < size_rows s \<Longrightarrow> rows_loop s i = Inr True"
  by (atomize_elim, auto)
termination
  by (relation "measure (\<lambda>(s, i). size_rows s - i)") auto

definition isAllMasked :: "grid_store \<Rightarrow> js_error + bool" where
  "isAllMasked s = rows_loop s 0"

definition in_range :: "grid_store \<Rightarrow> int \<Rightarrow> int \<Rightarrow> bool" where
  "in_range s x y \<longleftrightarrow> 0 \<le> x \<and> x < int (size_cols s) \<and> 0 \<le> y \<and> y < int (size_rows s)"

section \<open>The item store (\<^verbatim>\<open>useItemStore\<close>)\<close>

text \<open>
  A setting is \<^verbatim>\<open>{ size: ItemSize, count: number }\<close>; \<open>size\<close> is a constant of HOL, so
  the field is \<open>item_size\<close>. The store validates neither field; \<open>count\<close> is an
  integer. A rectangle is \<^verbatim>\<open>{ width, height }\<close>.
\<close>

record ItemSetting =
  item_size :: ItemSize
  count :: int

record Rectangle =
  width :: int
  height :: int

record item_store =
  settings :: "ItemSetting list"

definition item_store_init :: item_store where
  "item_store_init = \<lparr>settings =
     [\<lparr>item_size = \<lparr>rows = 1, cols = 2\<rparr>, count = 0\<rparr>,
      \<lparr>item_size = \<lparr>rows = 1, cols = 2\<rparr>, count = 0\<rparr>,
      \<lparr>item_size = \<lparr>rows = 2, cols = 3\<rparr>, count = 0\<rparr>,
      \<lparr>item_size = \<lparr>rows = 3, cols = 3\<rparr>, count = 0\<rparr>]\<rparr>"

text \<open>
  \<^verbatim>\<open>settings.value[index]\<close> is \<^verbatim>\<open>undefined\<close> outside the array, and reading or writing
  a field of it throws a TypeError.
\<close>

definition setting_at :: "item_store \<Rightarrow> int \<Rightarrow> js_error + ItemSetting" where
  "setting_at st index =
     (if 0 \<le> index \<and> index < int (length (settings st)) then Inr (settings st ! nat index)
      else Inl TypeError)"

definition setSize :: "int \<Rightarrow> ItemSize \<Rightarrow> item_store \<Rightarrow> js_error + item_store" where
  "setSize index sz st =
     (case setting_at st index of
        Inl e \<Rightarrow> Inl e
      | Inr it \<Rightarrow> Inr (st\<lparr>settings := (settings st)[nat index := it\<lparr>item_size := sz\<rparr>]\<rparr>))"

definition setCount :: "int \<Rightarrow> int \<Rightarrow> item_store \<Rightarrow> js_error + item_store" where
  "setCount index n st =
     (case setting_at st index of
        Inl e \<Rightarrow> Inl e
      | Inr it \<Rightarrow> Inr (st\<lparr>settings := (settings st)[nat index := it\<lparr>count := n\<rparr>]\<rparr>))"

text \<open>
  \<^verbatim>\<open>
  function toRectangleArray() {
    const result = []
    for (let i = 0; i < settings.value.length; i++) {
      const item = settings.value[i]
      for (let j = 0; j < item.count; j++) {
        result.push({ width: item.size.cols, height: item.size.rows })
      }
    }
    return result
  }
  \<close>
  \<open>push_loop\<close> is the inner loop from \<open>j\<close> on, \<open>settings_loop\<close> the outer loop from \<open>i\<close> on;
  both thread \<open>result\<close>.
\<close>

definition rectangle_of :: "ItemSetting \<Rightarrow> Rectangle" where
  "rectangle_of item = \<lparr>width = cols (item_size item), height = rows (item_size item)\<rparr>"

function push_loop :: "ItemSetting \<Rightarrow> nat \<Rightarrow> Rectangle list \<Rightarrow> Rectangle list" where
  "int j < count item \<Longrightarrow>
     push_loop item j result = push_loop item (Suc j) (result @ [rectangle_of item])"
| "\<not> int j < count item \<Longrightarrow> push_loop item j result = result"
  by (atomize_elim, auto)
termination
  by (relation "measure (\<lambda>(item, j, result). nat (count item) - j)") auto

function settings_loop :: "item_store \<Rightarrow> nat \<Rightarrow> Rectangle list \<Rightarrow> Rectangle list" where
  "i < length (settings st) \<Longrightarrow>
     settings_loop st i result =
       settings_loop st (Suc i) (push_loop (settings st ! i) 0 result)"
| "\<not> i < length (settings st) \<Longrightarrow> settings_loop st i result = result"
  by (atomize_elim, auto)
termination
  by (relation "measure (\<lambda>(st, i, result). length (settings st) - i)") auto

definition toRectangleArray :: "item_store \<Rightarrow> Rectangle list" where
  "toRectangleArray st = settings_loop st 0 []"

text \<open>
  A sequence of calls of the two setters, run in order; a call that throws ends the run.
\<close>

datatype item_call = SetSize int ItemSize | SetCount int int

fun apply_call :: "item_call \<Rightarrow> item_store \<Rightarrow> js_error + item_store" where
  "apply_call (SetSize index sz) st = setSize index sz st"
| "apply_call (SetCount index n) st = setCount index n st"

fun apply_calls :: "item_call list \<Rightarrow> item_store \<Rightarrow> js_error + item_store" where
  "apply_calls [] st = Inr st"
| "apply_calls (c # cs) st =
     (case apply_call c st of Inl e \<Rightarrow> Inl e | Inr st' \<Rightarrow> apply_calls cs st')"

text \<open>
  The data model has every count a non-negative integer, and the one caller of
  \<^verbatim>\<open>setCount\<close> passes one (the count selector offers 0 to 6); the store itself does not
  check it. \<open>valid_counts\<close> says it of a store, \<open>valid_call\<close> of a call.
\<close>

definition valid_counts :: "item_store \<Rightarrow> bool" where
  "valid_counts st \<longleftrightarrow> list_all (\<lambda>it. 0 \<le> count it) (settings st)"

fun valid_call :: "item_call \<Rightarrow> bool" where
  "valid_call (SetSize index sz) = True"
| "valid_call (SetCount index n) = (0 \<le> n)"

text \<open>What one setting contributes to the array: \<open>count\<close> copies of its rectangle.\<close>

definition copies :: "ItemSetting \<Rightarrow> Rectangle list" where
  "copies item = replicate (nat (count item)) (rectangle_of item)"

section \<open>The grid container (\<^verbatim>\<open>PanelGridContainer.vue\<close>)\<close>

text \<open>
  \<^verbatim>\<open>type Color = [number, number, number]\<close>; a panel datum is \<^verbatim>\<open>[number, Color]\<close>;
  \<^verbatim>\<open>interface InferenceResult { probabilities; entropy }\<close>.
\<close>

type_synonym Color = "int \<times> int \<times> int"

type_synonym panel_datum = "rat \<times> Color"

record InferenceResult =
  probabilities :: "panel_datum Grid"
  entropy :: "panel_datum Grid"

text \<open>
  \<^verbatim>\<open>
  const indexToRowCol = (index: number) => {
    const row = Math.floor(index / gridStore.size.cols)
    const col = index % gridStore.size.cols
    return { row, col }
  }
  \<close>
  \<^verbatim>\<open>%\<close> is the remainder that takes the sign of the dividend. With zero columns the
  quotient is infinite or NaN and the remainder is NaN: no integers, hence \<open>None\<close>.
\<close>

definition js_rem :: "int \<Rightarrow> int \<Rightarrow> int" where
  "js_rem a b = sgn a * (\<bar>a\<bar> mod \<bar>b\<bar>)"

definition indexToRowCol :: "grid_store \<Rightarrow> int \<Rightarrow> (int \<times> int) option" where
  "indexToRowCol gs index =
     (if size_cols gs = 0 then None
      else Some (\<lfloor>rat_of_int index / rat_of_int (int (size_cols gs))\<rfloor>,
                 js_rem index (int (size_cols gs))))"

text \<open>
  What \<^verbatim>\<open>data[row][col]\<close> evaluates to. A row index that is no index of \<open>data\<close> gives
  \<^verbatim>\<open>undefined\<close>, and indexing that throws a TypeError; a column index that is no index
  of the row gives \<^verbatim>\<open>undefined\<close> as the value of the expression.
\<close>

datatype lookup = Null | Undefined | Datum panel_datum

definition grid_cell :: "panel_datum list list \<Rightarrow> (int \<times> int) option \<Rightarrow> js_error + lookup" where
  "grid_cell d rc =
     (case rc of
        None \<Rightarrow> Inl TypeError
      | Some (row, col) \<Rightarrow>
          if row < 0 \<or> row \<ge> int (length d) then Inl TypeError
          else if col < 0 \<or> col \<ge> int (length (d ! nat row)) then Inr Undefined
          else Inr (Datum (d ! nat row ! nat col)))"

text \<open>
  \<^verbatim>\<open>
  const getProbability = (i: number): [number, Color] | null => {
    const { row, col } = indexToRowCol(i)
    if (props.inferenceResult !== null) {
      return props.inferenceResult.probabilities.data[row][col]
    }
    return null
  }
  \<close>
  and the same for \<^verbatim>\<open>getEntropy\<close> with the \<^verbatim>\<open>entropy\<close> grid.
\<close>

definition getProbability :: "grid_store \<Rightarrow> InferenceResult option \<Rightarrow> int \<Rightarrow> js_error + lookup" where
  "getProbability gs inferenceResult i =
     (let rc = indexToRowCol gs i
      in case inferenceResult of
           Some r \<Rightarrow> grid_cell (data (probabilities r)) rc
         | None \<Rightarrow> Inr Null)"

definition getEntropy :: "grid_store \<Rightarrow> InferenceResult option \<Rightarrow> int \<Rightarrow> js_error + lookup" where
  "getEntropy gs inferenceResult i =
     (let rc = indexToRowCol gs i
      in case inferenceResult of
           Some r \<Rightarrow> grid_cell (data (entropy r)) rc
         | None \<Rightarrow> Inr Null)"

text \<open>
  A grid of a result has the dimensions the store declares when its two fields and the
  shape of its data agree with them.
\<close>

definition grid_matches :: "grid_store \<Rightarrow> 'a Grid \<Rightarrow> bool" where
  "grid_matches gs g \<longleftrightarrow>
     grid_rows g = int (size_rows gs) \<and> grid_cols g = int (size_cols gs) \<and>
     length (data g) = size_rows gs \<and> list_all (\<lambda>row. length row = size_cols gs) (data g)"

section \<open>The panel item (\<^verbatim>\<open>GridPanelItem.vue\<close>)\<close>

text \<open>
  \<^verbatim>\<open>panelData\<close> is the \<^verbatim>\<open>entropy\<close> prop or the \<^verbatim>\<open>probablity\<close> prop, by the display
  mode; either is a datum or \<^verbatim>\<open>null\<close>, and \<^verbatim>\<open>textColor\<close> and \<^verbatim>\<open>label\<close> are functions
  of its value. \<^verbatim>\<open>Math.round\<close> rounds to the nearest integer, a tie towards plus
  infinity.
  \<^verbatim>\<open>
  const textColor = computed(() => {
    if (panelData.value !== null) {
      const rgb = panelData.value[1]
      const brightness = Math.round(
        (rgb[0] * 299 + rgb[1] * 587 + rgb[2] * 114) / 1000,
      )
      const color = brightness > 125 ? 'black' : 'white'
      return color
    }
    else {
      return 'black'
    }
  })
  \<close>
  The weighted sum is an integer, and its quotient by 1000 is a tie or at least a
  thousandth away from one, so the rounding of the double division cannot change the
  result of \<^verbatim>\<open>Math.round\<close>; the quotient is taken in \<open>rat\<close>.
\<close>

definition Math_round :: "rat \<Rightarrow> int" where
  "Math_round x = \<lfloor>x + 1 / 2\<rfloor>"

definition brightness :: "Color \<Rightarrow> int" where
  "brightness rgb =
     (case rgb of (r, g, b) \<Rightarrow> Math_round (rat_of_int (r * 299 + g * 587 + b * 114) / 1000))"

definition textColor :: "panel_datum option \<Rightarrow> string" where
  "textColor pd =
     (case pd of
        Some (v, rgb) \<Rightarrow> (if brightness rgb > 125 then ''black'' else ''white'')
      | None \<Rightarrow> ''black'')"

text \<open>
  \<^verbatim>\<open>Number.prototype.toFixed(2)\<close>, as ECMAScript defines it on the exact value of the
  number: a minus sign when the number is negative; then, for an absolute value \<open>x\<close> of
  \<open>10 ^ 21\<close> or more, \<^verbatim>\<open>Number::toString(x)\<close>, which is in exponent notation there;
  otherwise the integer \<open>n\<close> for which \<open>n / 100 - x\<close> is closest to zero (the larger one
  on a tie), written in decimal, padded on the left with zeros to three digits, with a
  point before the last two. \<^verbatim>\<open>Number::toString\<close> depends on the binary representation
  of the double and is a parameter.
\<close>

definition digit_char :: "nat \<Rightarrow> char" where
  "digit_char d = ''0123456789'' ! d"

function decimal :: "nat \<Rightarrow> string" where
  "n < 10 \<Longrightarrow> decimal n = [digit_char n]"
| "\<not> n < 10 \<Longrightarrow> decimal n = decimal (n div 10) @ [digit_char (n mod 10)]"
  by (atomize_elim, auto)
termination
  by (relation "measure id") auto

definition toFixed2 :: "(rat \<Rightarrow> string) \<Rightarrow> rat \<Rightarrow> string" where
  "toFixed2 numberToString v =
     (let s = (if v < 0 then ''-'' else []);
          x = \<bar>v\<bar>
      in if x \<ge> 10 ^ 21 then s @ numberToString x
         else
           let n = nat \<lfloor>x * 100 + 1 / 2\<rfloor>;
               m = decimal n;
               m = (if length m \<le> 2 then replicate (3 - length m) (CHR ''0'') @ m else m);
               k = length m
           in s @ take (k - 2) m @ ''.'' @ drop (k - 2) m)"

text \<open>
  \<^verbatim>\<open>
  const label = computed(() => {
    if (panelData.value !== null) {
      return panelData.value[0].toFixed(2)
    }
    return ''
  })
  \<close>
\<close>

definition label :: "(rat \<Rightarrow> string) \<Rightarrow> panel_datum option \<Rightarrow> string" where
  "label numberToString pd =
     (case pd of Some (v, rgb) \<Rightarrow> toFixed2 numberToString v | None \<Rightarrow> [])"

text \<open>
  An instance of the parameter for evaluating a label: it agrees with
  \<^verbatim>\<open>Number::toString\<close> at the value \<open>10 ^ 21\<close>, which ECMAScript writes as \<open>1e+21\<close>, and
  is meant for no other value.
\<close>

definition toString_1e21 :: "rat \<Rightarrow> string" where
  "toString_1e21 x = ''1e+21''"

text \<open>
  A string has exactly two digits after a decimal point: an optional minus sign, one or
  more digits, a point, two digits, and nothing else.
\<close>

definition is_digit :: "char \<Rightarrow> bool" where
  "is_digit c \<longleftrightarrow> c \<in> set ''0123456789''"

definition two_decimals :: "string \<Rightarrow> bool" where
  "two_decimals s \<longleftrightarrow>
     (let t = (case s of c # cs \<Rightarrow> (if c = CHR ''-'' then cs else s) | [] \<Rightarrow> s);
          k = length t
      in 4 \<le> k \<and> list_all is_digit (take (k - 3) t) \<and> t ! (k - 3) = CHR ''.'' \<and>
         list_all is_digit (drop (k - 2) t))"

section \<open>The page (\<^verbatim>\<open>requestInference\<close> and the subscription to the grid store)\<close>

text \<open>
  The page holds \<^verbatim>\<open>estimates\<close> (a result or \<^verbatim>\<open>null\<close>, \<^verbatim>\<open>null\<close> at first) and
  \<^verbatim>\<open>isShowWaitIndicator\<close> (\<^verbatim>\<open>false\<close> at first).
\<close>

record view_state =
  estimates :: "InferenceResult option"
  isShowWaitIndicator :: bool

record request =
  req_mask :: "bool Grid"
  req_rectangles :: "Rectangle list"

text \<open>
  \<^verbatim>\<open>
  const requestInference = async () => {
    isShowWaitIndicator.value = true
    const grid: Grid<boolean> = { rows: gridStore.size.rows, cols: gridStore.size.cols, data: gridStore.mask }
    const param = { mask: grid, rectangles: itemStore.toRectangleArray() }
    const data: InferenceResult = await $fetch('/estimate', { method: 'POST', body: param })
    estimates.value = data
    isShowWaitIndicator.value = false
  }
  \<close>
  The function runs in two steps. \<open>requestInference_begin\<close> is the part up to the
  \<^verbatim>\<open>await\<close>: it sets the flag and builds the request. \<open>requestInference_resume\<close> is the
  part after it, run on the state of the page at that later time: when the promise of
  \<^verbatim>\<open>$fetch\<close> is fulfilled, the two assignments run; when it is rejected, the
  \<^verbatim>\<open>await\<close> throws, the function has no \<^verbatim>\<open>try\<close>, and neither assignment runs. The
  first component of the result is the exception the function ends with, if any.
\<close>

datatype fetch_outcome = Fulfilled InferenceResult | Rejected

definition requestInference_begin ::
  "grid_store \<Rightarrow> item_store \<Rightarrow> view_state \<Rightarrow> view_state \<times> request" where
  "requestInference_begin gs st vs =
     (vs\<lparr>isShowWaitIndicator := True\<rparr>,
      \<lparr>req_mask = \<lparr>grid_rows = int (size_rows gs), grid_cols = int (size_cols gs),
                    data = mask_ref gs\<rparr>,
       req_rectangles = toRectangleArray st\<rparr>)"

definition requestInference_resume ::
  "fetch_outcome \<Rightarrow> view_state \<Rightarrow> js_error option \<times> view_state" where
  "requestInference_resume outcome vs =
     (case outcome of
        Fulfilled d \<Rightarrow> (None, vs\<lparr>estimates := Some d, isShowWaitIndicator := False\<rparr>)
      | Rejected \<Rightarrow> (Some FetchError, vs))"

text \<open>
  \<^verbatim>\<open>
  useGridStore().$subscribe((_) => {
    if (gridStore.isAllMasked()) {
      estimates.value = null
    }
  })
  \<close>
  \<open>on_grid_mutation\<close> is the callback, run on the store as mutated. \<open>dispatch\<close> is an
  action of the grid store followed by the callback when the action has written to the
  store: \<^verbatim>\<open>reset\<close> always writes, \<^verbatim>\<open>flipMask\<close> writes when it passes its guard.
\<close>

definition on_grid_mutation :: "grid_store \<Rightarrow> view_state \<Rightarrow> js_error + view_state" where
  "on_grid_mutation gs vs =
     (case isAllMasked gs of
        Inl e \<Rightarrow> Inl e
      | Inr b \<Rightarrow> Inr (if b then vs\<lparr>estimates := None\<rparr> else vs))"

datatype grid_action = FlipMask int int | Reset

fun mutates :: "grid_action \<Rightarrow> grid_store \<Rightarrow> bool" where
  "mutates (FlipMask x y) gs = in_range gs x y"
| "mutates Reset gs = True"

fun run_action :: "grid_action \<Rightarrow> grid_store \<Rightarrow> js_error + grid_store" where
  "run_action (FlipMask x y) gs = flipMask x y gs"
| "run_action Reset gs = Inr (reset gs)"

definition dispatch ::
  "grid_action \<Rightarrow> grid_store \<times> view_state \<Rightarrow> js_error + grid_store \<times> view_state" where
  "dispatch a p =
     (case p of (gs, vs) \<Rightarrow>
        (case run_action a gs of
           Inl e \<Rightarrow> Inl e
         | Inr gs' \<Rightarrow>
             if mutates a gs then
               (case on_grid_mutation gs' vs of Inl e \<Rightarrow> Inl e | Inr vs' \<Rightarrow> Inr (gs', vs'))
             else Inr (gs', vs)))"

section \<open>The loops as single equations\<close>

text \<open>
  Each loop function, unfolded once, as one equation with the loop condition inside;
  these are the equations the loops are evaluated with.
\<close>

lemma row_loop_unfold [code]:
  "row_loop row c j =
     (if j < c then (if cell_truthy row j then False else row_loop row c (Suc j)) else True)"
  by simp

lemma rows_loop_unfold [code]:
  "rows_loop s i =
     (if i < size_rows s then
        (if 0 < size_cols s \<and> i \<ge> length (mask_ref s) then Inl TypeError
         else if row_loop (mask_ref s ! i) (size_cols s) 0 then rows_loop s (Suc i)
         else Inr False)
      else Inr True)"
  by simp

lemma push_loop_unfold [code]:
  "push_loop item j result =
     (if int j < count item then push_loop item (Suc j) (result @ [rectangle_of item]) else result)"
  by simp

lemma settings_loop_unfold [code]:
  "settings_loop st i result =
     (if i < length (settings st)
      then settings_loop st (Suc i) (push_loop (settings st ! i) 0 result)
      else result)"
  by simp

lemma decimal_unfold [code]:
  "decimal n = (if n < 10 then [digit_char n] else decimal (n div 10) @ [digit_char (n mod 10)])"
  by simp

section \<open>The grid store: loops, shape and flipping\<close>

lemma all_from_Suc:
  "j < c \<Longrightarrow> (\<forall>k. j \<le> k \<and> k < c \<longrightarrow> P k) \<longleftrightarrow> P j \<and> (\<forall>k. Suc j \<le> k \<and> k < c \<longrightarrow> P k)"
proof (intro iffI conjI allI impI)
  fix k assume "j < c" and h: "P j \<and> (\<forall>k. Suc j \<le> k \<and> k < c \<longrightarrow> P k)" and k: "j \<le> k \<and> k < c"
  show "P k"
  proof (cases "k = j")
    case True
    then show ?thesis using h by simp
  next
    case False
    then have "Suc j \<le> k" using k by simp
    then show ?thesis using h k by simp
  qed
qed auto

lemma row_loop_iff:
  "row_loop row c j \<longleftrightarrow> (\<forall>k. j \<le> k \<and> k < c \<longrightarrow> \<not> cell_truthy row k)"
proof (induction row c j rule: row_loop.induct)
  case (1 j c row)
  show ?case
  proof (cases "cell_truthy row j")
    case True
    then have "\<not> row_loop row c j" using "1.hyps" by simp
    then show ?thesis
      using True all_from_Suc[OF "1.hyps", of "\<lambda>k. \<not> cell_truthy row k"] by simp
  next
    case False
    have "row_loop row c j = row_loop row c (Suc j)" using "1.hyps" False by simp
    also have "\<dots> \<longleftrightarrow> (\<forall>k. Suc j \<le> k \<and> k < c \<longrightarrow> \<not> cell_truthy row k)"
      using "1.IH" False by simp
    finally show ?thesis
      using False all_from_Suc[OF "1.hyps", of "\<lambda>k. \<not> cell_truthy row k"] by simp
  qed
next
  case (2 j c row)
  then have "row_loop row c j" by (subst row_loop_unfold) simp
  then show ?case using 2 by auto
qed

lemma rows_loop_shape:
  assumes "length (mask_ref s) = size_rows s"
  shows "rows_loop s i =
    Inr (\<forall>r. i \<le> r \<and> r < size_rows s \<longrightarrow> row_loop (mask_ref s ! r) (size_cols s) 0)"
  using assms
proof (induction s i rule: rows_loop.induct)
  case (1 i s)
  let ?P = "\<lambda>r. row_loop (mask_ref s ! r) (size_cols s) 0"
  have inb: "i < length (mask_ref s)"
    using "1.hyps" "1.prems" by simp
  show ?case
  proof (cases "?P i")
    case False
    then have "rows_loop s i = Inr False" using "1.hyps" inb by simp
    then show ?thesis using False all_from_Suc[OF "1.hyps", of ?P] by simp
  next
    case True
    have "rows_loop s i = rows_loop s (Suc i)" using "1.hyps" inb True by simp
    also have "\<dots> = Inr (\<forall>r. Suc i \<le> r \<and> r < size_rows s \<longrightarrow> ?P r)"
      using "1.IH" inb True "1.prems" by simp
    finally show ?thesis using True all_from_Suc[OF "1.hyps", of ?P] by simp
  qed
next
  case (2 i s)
  then have "rows_loop s i = Inr True" by (subst rows_loop_unfold) simp
  then show ?case using 2 by auto
qed

lemma isAllMasked_shape:
  assumes "mask_shape s"
  shows "isAllMasked s = Inr (\<forall>row \<in> set (mask_ref s). \<forall>c \<in> set row. \<not> c)"
proof -
  have len: "length (mask_ref s) = size_rows s"
    and rowlen: "\<And>r. r < size_rows s \<Longrightarrow> length (mask_ref s ! r) = size_cols s"
    using assms by (simp_all add: mask_shape_def list_all_length)
  have "(\<forall>r. 0 \<le> r \<and> r < size_rows s \<longrightarrow> row_loop (mask_ref s ! r) (size_cols s) 0)
        \<longleftrightarrow> (\<forall>row \<in> set (mask_ref s). \<forall>c \<in> set row. \<not> c)" (is "?L \<longleftrightarrow> ?R")
  proof
    assume L: ?L
    show ?R
    proof (intro ballI)
      fix row c assume "row \<in> set (mask_ref s)" and "c \<in> set row"
      then obtain r k where r: "r < size_rows s" "mask_ref s ! r = row"
        and k: "k < length row" "row ! k = c"
        using len by (auto simp: in_set_conv_nth)
      from L r have "row_loop row (size_cols s) 0" by auto
      moreover have "k < size_cols s" using k r rowlen by auto
      ultimately have "\<not> cell_truthy row k" by (simp add: row_loop_iff)
      then show "\<not> c" using k by (simp add: cell_truthy_def)
    qed
  next
    assume R: ?R
    show ?L
    proof (intro allI impI)
      fix r assume "0 \<le> r \<and> r < size_rows s"
      then have mem: "mask_ref s ! r \<in> set (mask_ref s)" using len by simp
      have "\<not> cell_truthy (mask_ref s ! r) k" for k
      proof
        assume "cell_truthy (mask_ref s ! r) k"
        then have kl: "k < length (mask_ref s ! r)" and t: "mask_ref s ! r ! k"
          by (simp_all add: cell_truthy_def)
        have "mask_ref s ! r ! k \<in> set (mask_ref s ! r)" using kl by (rule nth_mem)
        with R mem t show False by blast
      qed
      then show "row_loop (mask_ref s ! r) (size_cols s) 0"
        by (simp add: row_loop_iff)
    qed
  qed
  then show ?thesis using rows_loop_shape[OF len, of 0] by (simp add: isAllMasked_def)
qed

lemma mask_shape_fresh: "mask_shape (s\<lparr>mask_ref := fresh_mask (size_rows s) (size_cols s)\<rparr>)"
  by (simp add: mask_shape_def fresh_mask_def list_all_iff)

lemma mask_shape_reset: "mask_shape (reset s)"
  by (simp add: reset_def mask_shape_fresh)

lemma isAllMasked_reset: "isAllMasked (reset s) = Inr True"
  using isAllMasked_shape[OF mask_shape_reset, of s]
  by (auto simp: reset_def fresh_mask_def)

lemma mask_shape_init: "mask_shape grid_store_init"
  using mask_shape_fresh[of "\<lparr>size_rows = 5, size_cols = 9, mask_ref = []\<rparr>"]
  by (simp add: grid_store_init_def)


lemma flipMask_out_of_range: "\<not> in_range s x y \<Longrightarrow> flipMask x y s = Inr s"
  by (auto simp: flipMask_def in_range_def)

lemma flipMask_in_range:
  assumes "mask_shape s" and "in_range s x y"
  shows "flipMask x y s =
    Inr (s\<lparr>mask_ref := (mask_ref s)[nat y := (mask_ref s ! nat y)[nat x := \<not> mask_ref s ! nat y ! nat x]]\<rparr>)"
proof -
  have y: "nat y < length (mask_ref s)" using assms by (auto simp: mask_shape_def in_range_def)
  then have "length (mask_ref s ! nat y) = size_cols s"
    using assms(1) by (simp add: mask_shape_def list_all_length)
  then have x: "nat x < length (mask_ref s ! nat y)" using assms(2) by (auto simp: in_range_def)
  show ?thesis using assms(2) x y by (simp add: flipMask_def in_range_def Let_def)
qed

lemma mask_shape_update:
  assumes "mask_shape s" and "length row = size_cols s"
  shows "mask_shape (s\<lparr>mask_ref := (mask_ref s)[i := row]\<rparr>)"
  using assms
  by (cases "i < length (mask_ref s)")
     (auto simp: mask_shape_def list_all_length nth_list_update list_update_beyond)

lemma flipMask_shape:
  assumes "mask_shape s"
  shows "\<exists>s'. flipMask x y s = Inr s' \<and> mask_shape s' \<and>
           size_rows s' = size_rows s \<and> size_cols s' = size_cols s"
proof (cases "in_range s x y")
  case False
  then show ?thesis using assms by (simp add: flipMask_out_of_range)
next
  case True
  have y: "nat y < length (mask_ref s)" using assms True by (auto simp: mask_shape_def in_range_def)
  then have "length (mask_ref s ! nat y) = size_cols s"
    using assms by (simp add: mask_shape_def list_all_length)
  then show ?thesis
    using flipMask_in_range[OF assms True] mask_shape_update[OF assms] by simp
qed

lemma flipMask_twice:
  assumes "mask_shape s" and "in_range s x y"
  shows "\<exists>s'. flipMask x y s = Inr s' \<and> flipMask x y s' = Inr s"
proof -
  let ?row = "mask_ref s ! nat y"
  let ?s' = "s\<lparr>mask_ref := (mask_ref s)[nat y := ?row[nat x := \<not> ?row ! nat x]]\<rparr>"
  have y: "nat y < length (mask_ref s)" using assms by (auto simp: mask_shape_def in_range_def)
  then have len: "length ?row = size_cols s"
    using assms(1) by (simp add: mask_shape_def list_all_length)
  then have x: "nat x < length ?row" using assms(2) by (auto simp: in_range_def)
  have 1: "flipMask x y s = Inr ?s'" by (rule flipMask_in_range[OF assms])
  have sh: "mask_shape ?s'" using mask_shape_update[OF assms(1), of "?row[nat x := \<not> ?row ! nat x]"] len by simp
  have ir: "in_range ?s' x y" using assms(2) by (simp add: in_range_def)
  have "flipMask x y ?s' = Inr s"
    using flipMask_in_range[OF sh ir] x y by (simp add: list_update_same_conv)
  with 1 show ?thesis by blast
qed

text \<open>
  Claim C5. On a store whose mask has the declared shape, \<open>flipMask x y\<close> at a coordinate
  with \<open>0 \<le> x < cols\<close> and \<open>0 \<le> y < rows\<close> returns normally, and a second call with
  the same coordinate gives back the store it started from. At any other coordinate one
  call returns the store unchanged, whatever the store.
\<close>

theorem flipMask_involution:
  "(mask_shape s \<and> 0 \<le> x \<and> x < int (size_cols s) \<and> 0 \<le> y \<and> y < int (size_rows s)
      \<longrightarrow> (\<exists>s'. flipMask x y s = Inr s' \<and> flipMask x y s' = Inr s))
   \<and> (\<not> (0 \<le> x \<and> x < int (size_cols s) \<and> 0 \<le> y \<and> y < int (size_rows s))
      \<longrightarrow> flipMask x y s = Inr s)"
  using flipMask_twice[of s x y] flipMask_out_of_range[of s x y]
  by (simp add: in_range_def)

theorem flipMask_involution_witness:
  "mask_shape \<lparr>size_rows = 2, size_cols = 3, mask_ref = [[False, True, False], [True, False, False]]\<rparr>
   \<and> (\<exists>s'. flipMask 2 1 \<lparr>size_rows = 2, size_cols = 3, mask_ref = [[False, True, False], [True, False, False]]\<rparr> = Inr s'
          \<and> flipMask 2 1 s' = Inr \<lparr>size_rows = 2, size_cols = 3, mask_ref = [[False, True, False], [True, False, False]]\<rparr>)
   \<and> flipMask 3 0 \<lparr>size_rows = 2, size_cols = 3, mask_ref = [[False, True, False], [True, False, False]]\<rparr>
       = Inr \<lparr>size_rows = 2, size_cols = 3, mask_ref = [[False, True, False], [True, False, False]]\<rparr>"
proof -
  let ?s = "\<lparr>size_rows = 2, size_cols = 3, mask_ref = [[False, True, False], [True, False, False]]\<rparr>"
  have sh: "mask_shape ?s" by (simp add: mask_shape_def)
  have a: "\<exists>s'. flipMask 2 1 ?s = Inr s' \<and> flipMask 2 1 s' = Inr ?s"
    using flipMask_involution[of ?s 2 1] sh by simp
  have b: "flipMask 3 0 ?s = Inr ?s"
    using flipMask_involution[of ?s 3 0] by simp
  from sh a b show ?thesis by blast
qed

text \<open>
  Claim C6. Whatever the mask held before, \<open>isAllMasked\<close> returns \<open>true\<close> after
  \<open>reset\<close>; and on a store whose mask has the declared shape \<open>isAllMasked\<close> returns
  normally, with \<open>true\<close> exactly when every cell of the mask is \<open>false\<close>.
\<close>

theorem reset_isAllMasked:
  "isAllMasked (reset s) = Inr True
   \<and> (mask_shape s \<longrightarrow> isAllMasked s = Inr (\<forall>row \<in> set (mask_ref s). \<forall>c \<in> set row. \<not> c))"
  using isAllMasked_reset[of s] isAllMasked_shape[of s] by simp

theorem reset_isAllMasked_witness:
  "mask_shape \<lparr>size_rows = 2, size_cols = 2, mask_ref = [[False, True], [False, False]]\<rparr>
   \<and> isAllMasked \<lparr>size_rows = 2, size_cols = 2, mask_ref = [[False, True], [False, False]]\<rparr> = Inr False
   \<and> isAllMasked (reset \<lparr>size_rows = 2, size_cols = 2, mask_ref = [[False, True], [False, False]]\<rparr>) = Inr True"
  using reset_isAllMasked[of "\<lparr>size_rows = 2, size_cols = 2, mask_ref = [[False, True], [False, False]]\<rparr>"]
  by (auto simp: mask_shape_def)

text \<open>
  Claim C10. On a store whose mask has the declared shape, \<open>flipMask x y\<close> at an in-range
  coordinate negates the cell \<open>mask[y][x]\<close> and leaves every other cell as it was;
  \<open>flipMask\<close> at any coordinate keeps the shape of the mask and the declared size; and
  \<open>reset\<close> yields a mask of the declared shape and keeps the declared size. The store
  starts with a mask of the declared shape, so the shape is an invariant of the store.
\<close>

theorem flipMask_reset_frame:
  "(mask_shape s \<and> 0 \<le> x \<and> x < int (size_cols s) \<and> 0 \<le> y \<and> y < int (size_rows s)
      \<longrightarrow> (\<exists>s'. flipMask x y s = Inr s'
            \<and> mask_ref s' ! nat y ! nat x = (\<not> mask_ref s ! nat y ! nat x)
            \<and> (\<forall>i < size_rows s. \<forall>j < size_cols s.
                  (i, j) \<noteq> (nat y, nat x) \<longrightarrow> mask_ref s' ! i ! j = mask_ref s ! i ! j)))
   \<and> (mask_shape s
      \<longrightarrow> (\<exists>s'. flipMask x y s = Inr s' \<and> mask_shape s'
            \<and> size_rows s' = size_rows s \<and> size_cols s' = size_cols s))
   \<and> mask_shape (reset s) \<and> size_rows (reset s) = size_rows s \<and> size_cols (reset s) = size_cols s
   \<and> mask_shape grid_store_init"
proof (intro conjI impI)
  assume a: "mask_shape s \<and> 0 \<le> x \<and> x < int (size_cols s) \<and> 0 \<le> y \<and> y < int (size_rows s)"
  then have sh: "mask_shape s" and ir: "in_range s x y" by (simp_all add: in_range_def)
  let ?row = "mask_ref s ! nat y"
  let ?s' = "s\<lparr>mask_ref := (mask_ref s)[nat y := ?row[nat x := \<not> ?row ! nat x]]\<rparr>"
  have y: "nat y < length (mask_ref s)" using sh ir by (auto simp: mask_shape_def in_range_def)
  then have len: "length ?row = size_cols s"
    using sh by (simp add: mask_shape_def list_all_length)
  then have x: "nat x < length ?row" using ir by (auto simp: in_range_def)
  have 1: "flipMask x y s = Inr ?s'" by (rule flipMask_in_range[OF sh ir])
  have 2: "mask_ref ?s' ! nat y ! nat x = (\<not> ?row ! nat x)" using x y by simp
  have 3: "mask_ref ?s' ! i ! j = mask_ref s ! i ! j" if "(i, j) \<noteq> (nat y, nat x)" for i j
  proof (cases "i = nat y")
    case True
    then have "j \<noteq> nat x" using that by simp
    then show ?thesis using True y by simp
  next
    case False
    then show ?thesis by simp
  qed
  from 1 2 3 show "\<exists>s'. flipMask x y s = Inr s'
            \<and> mask_ref s' ! nat y ! nat x = (\<not> mask_ref s ! nat y ! nat x)
            \<and> (\<forall>i < size_rows s. \<forall>j < size_cols s.
                  (i, j) \<noteq> (nat y, nat x) \<longrightarrow> mask_ref s' ! i ! j = mask_ref s ! i ! j)"
    by blast
next
  assume "mask_shape s"
  then show "\<exists>s'. flipMask x y s = Inr s' \<and> mask_shape s'
            \<and> size_rows s' = size_rows s \<and> size_cols s' = size_cols s"
    by (rule flipMask_shape)
next
  show "mask_shape (reset s)" by (rule mask_shape_reset)
next
  show "mask_shape grid_store_init" by (rule mask_shape_init)
qed (simp_all add: reset_def)

theorem flipMask_reset_frame_witness:
  "(\<exists>s'. flipMask 1 0 \<lparr>size_rows = 2, size_cols = 2, mask_ref = [[False, True], [False, False]]\<rparr> = Inr s'
      \<and> mask_ref s' = [[False, False], [False, False]] \<and> mask_shape s'
      \<and> size_rows s' = 2 \<and> size_cols s' = 2)"
  using flipMask_reset_frame[of "\<lparr>size_rows = 2, size_cols = 2, mask_ref = [[False, True], [False, False]]\<rparr>" 1 0]
  by (auto simp: mask_shape_def flipMask_def)

section \<open>The item store: the rectangle array\<close>

lemma push_loop_eq:
  "push_loop item j result = result @ replicate (nat (count item) - j) (rectangle_of item)"
proof (induction item j result rule: push_loop.induct)
  case (1 j item result)
  then have n: "nat (count item) - j = Suc (nat (count item) - Suc j)" by linarith
  have "push_loop item j result = push_loop item (Suc j) (result @ [rectangle_of item])"
    using "1.hyps" by simp
  also have "\<dots> = (result @ [rectangle_of item]) @ replicate (nat (count item) - Suc j) (rectangle_of item)"
    by (rule "1.IH")
  finally show ?case by (simp add: n)
next
  case (2 j item result)
  then have "nat (count item) - j = 0" by simp
  moreover have "push_loop item j result = result"
    using "2.hyps" by (subst push_loop_unfold) simp
  ultimately show ?case by simp
qed

lemma settings_loop_eq:
  "settings_loop st i result = result @ concat (map copies (drop i (settings st)))"
proof (induction st i result rule: settings_loop.induct)
  case (1 i st result)
  have "settings_loop st i result = settings_loop st (Suc i) (push_loop (settings st ! i) 0 result)"
    using "1.hyps" by simp
  also have "\<dots> = push_loop (settings st ! i) 0 result @ concat (map copies (drop (Suc i) (settings st)))"
    by (rule "1.IH")
  also have "\<dots> = result @ concat (map copies (settings st ! i # drop (Suc i) (settings st)))"
    by (simp add: push_loop_eq copies_def)
  finally show ?case using "1.hyps" by (simp add: Cons_nth_drop_Suc)
next
  case (2 i st result)
  then have "settings_loop st i result = result" by (subst settings_loop_unfold) simp
  then show ?case using 2 by simp
qed

lemma toRectangleArray_eq: "toRectangleArray st = concat (map copies (settings st))"
  by (simp add: toRectangleArray_def settings_loop_eq)

lemma length_concat_copies:
  "int (length (concat (map copies xs))) = sum_list (map (\<lambda>it. max 0 (count it)) xs)"
  by (induction xs) (auto simp: copies_def)

lemma sum_list_nonneg_counts:
  "\<forall>it \<in> set xs. 0 \<le> count it \<Longrightarrow> sum_list (map (\<lambda>it. max 0 (count it)) xs) = sum_list (map count xs)"
  by (induction xs) auto

lemma concat_copies_zero:
  "\<forall>it \<in> set xs. count it = 0 \<Longrightarrow> concat (map copies xs) = []"
  by (induction xs) (auto simp: copies_def)

lemma apply_call_valid:
  assumes "valid_call c" and "valid_counts st" and "apply_call c st = Inr st'"
  shows "valid_counts st'"
proof (cases c)
  case (SetSize index sz)
  then show ?thesis
    using assms
    by (auto simp: setSize_def setting_at_def valid_counts_def list_all_length nth_list_update
        split: if_splits)
next
  case (SetCount index n)
  then show ?thesis
    using assms
    by (auto simp: setCount_def setting_at_def valid_counts_def list_all_length nth_list_update
        split: if_splits)
qed

lemma apply_calls_valid:
  "list_all valid_call cs \<Longrightarrow> valid_counts st0 \<Longrightarrow> apply_calls cs st0 = Inr st
     \<Longrightarrow> valid_counts st"
proof (induction cs arbitrary: st0)
  case Nil
  then show ?case by simp
next
  case (Cons c cs)
  from Cons.prems(3) obtain st1 where 1: "apply_call c st0 = Inr st1"
    and 2: "apply_calls cs st1 = Inr st"
    by (auto split: sum.splits)
  have "valid_counts st1" using apply_call_valid[OF _ Cons.prems(2) 1] Cons.prems(1) by simp
  then show ?case using Cons.IH[OF _ _ 2] Cons.prems(1) by simp
qed

lemma valid_counts_init: "valid_counts item_store_init"
  by (simp add: valid_counts_def item_store_init_def)

text \<open>
  Claim C4. On a store whose counts are non-negative integers, as the data model has
  them, and so after every sequence of \<open>setSize\<close> and \<open>setCount\<close> calls that returns and
  leaves such counts, \<open>toRectangleArray\<close> is the concatenation, in the order of the
  settings, of \<open>count\<close> copies of \<open>{width: size.cols, height: size.rows}\<close> for each setting;
  its length is the sum of all counts; and it is empty when every count is zero. The
  store starts with such counts, and calls that pass such counts keep them.
\<close>

theorem toRectangleArray_counts:
  "(apply_calls cs st0 = Inr st \<and> valid_counts st \<longrightarrow>
      toRectangleArray st =
        concat (map (\<lambda>it. replicate (nat (count it))
                      \<lparr>width = cols (item_size it), height = rows (item_size it)\<rparr>) (settings st))
      \<and> int (length (toRectangleArray st)) = sum_list (map count (settings st))
      \<and> ((\<forall>it \<in> set (settings st). count it = 0) \<longrightarrow> toRectangleArray st = []))
   \<and> (list_all valid_call cs \<and> valid_counts st0 \<and> apply_calls cs st0 = Inr st
        \<longrightarrow> valid_counts st)
   \<and> valid_counts item_store_init"
proof (intro conjI impI)
  assume a: "apply_calls cs st0 = Inr st \<and> valid_counts st"
  have c: "copies = (\<lambda>it. replicate (nat (count it))
                     \<lparr>width = cols (item_size it), height = rows (item_size it)\<rparr>)"
    by (rule ext) (simp add: copies_def rectangle_of_def)
  show "toRectangleArray st =
        concat (map (\<lambda>it. replicate (nat (count it))
                      \<lparr>width = cols (item_size it), height = rows (item_size it)\<rparr>) (settings st))"
    by (simp add: toRectangleArray_eq flip: c)
  have nn: "\<forall>it \<in> set (settings st). 0 \<le> count it"
    using a by (simp add: valid_counts_def list_all_iff)
  show "int (length (toRectangleArray st)) = sum_list (map count (settings st))"
    using length_concat_copies[of "settings st"] sum_list_nonneg_counts[OF nn]
    by (simp add: toRectangleArray_eq)
  show "toRectangleArray st = []" if "\<forall>it \<in> set (settings st). count it = 0"
    using concat_copies_zero[OF that] by (simp add: toRectangleArray_eq)
next
  assume "list_all valid_call cs \<and> valid_counts st0 \<and> apply_calls cs st0 = Inr st"
  then show "valid_counts st" using apply_calls_valid[of cs st0 st] by simp
next
  show "valid_counts item_store_init" by (rule valid_counts_init)
qed

lemma apply_calls_example:
  "apply_calls [SetSize 2 \<lparr>rows = 3, cols = 1\<rparr>, SetCount 0 2, SetCount 2 1] item_store_init =
     Inr \<lparr>settings =
     [\<lparr>item_size = \<lparr>rows = 1, cols = 2\<rparr>, count = 2\<rparr>,
      \<lparr>item_size = \<lparr>rows = 1, cols = 2\<rparr>, count = 0\<rparr>,
      \<lparr>item_size = \<lparr>rows = 3, cols = 1\<rparr>, count = 1\<rparr>,
      \<lparr>item_size = \<lparr>rows = 3, cols = 3\<rparr>, count = 0\<rparr>]\<rparr>"
  by (simp add: item_store_init_def setSize_def setCount_def setting_at_def)

theorem toRectangleArray_counts_witness:
  "list_all valid_call [SetSize 2 \<lparr>rows = 3, cols = 1\<rparr>, SetCount 0 2, SetCount 2 1]
   \<and> valid_counts item_store_init
   \<and> apply_calls [SetSize 2 \<lparr>rows = 3, cols = 1\<rparr>, SetCount 0 2, SetCount 2 1] item_store_init =
     Inr \<lparr>settings =
     [\<lparr>item_size = \<lparr>rows = 1, cols = 2\<rparr>, count = 2\<rparr>,
      \<lparr>item_size = \<lparr>rows = 1, cols = 2\<rparr>, count = 0\<rparr>,
      \<lparr>item_size = \<lparr>rows = 3, cols = 1\<rparr>, count = 1\<rparr>,
      \<lparr>item_size = \<lparr>rows = 3, cols = 3\<rparr>, count = 0\<rparr>]\<rparr>
   \<and> valid_counts \<lparr>settings =
     [\<lparr>item_size = \<lparr>rows = 1, cols = 2\<rparr>, count = 2\<rparr>,
      \<lparr>item_size = \<lparr>rows = 1, cols = 2\<rparr>, count = 0\<rparr>,
      \<lparr>item_size = \<lparr>rows = 3, cols = 1\<rparr>, count = 1\<rparr>,
      \<lparr>item_size = \<lparr>rows = 3, cols = 3\<rparr>, count = 0\<rparr>]\<rparr>
   \<and> toRectangleArray \<lparr>settings =
     [\<lparr>item_size = \<lparr>rows = 1, cols = 2\<rparr>, count = 2\<rparr>,
      \<lparr>item_size = \<lparr>rows = 1, cols = 2\<rparr>, count = 0\<rparr>,
      \<lparr>item_size = \<lparr>rows = 3, cols = 1\<rparr>, count = 1\<rparr>,
      \<lparr>item_size = \<lparr>rows = 3, cols = 3\<rparr>, count = 0\<rparr>]\<rparr>
     = [\<lparr>width = 2, height = 1\<rparr>, \<lparr>width = 2, height = 1\<rparr>, \<lparr>width = 1, height = 3\<rparr>]
   \<and> toRectangleArray item_store_init = []"
proof -
  let ?cs = "[SetSize 2 \<lparr>rows = 3, cols = 1\<rparr>, SetCount 0 2, SetCount 2 1]"
  let ?st = "\<lparr>settings =
     [\<lparr>item_size = \<lparr>rows = 1, cols = 2\<rparr>, count = 2\<rparr>,
      \<lparr>item_size = \<lparr>rows = 1, cols = 2\<rparr>, count = 0\<rparr>,
      \<lparr>item_size = \<lparr>rows = 3, cols = 1\<rparr>, count = 1\<rparr>,
      \<lparr>item_size = \<lparr>rows = 3, cols = 3\<rparr>, count = 0\<rparr>]\<rparr>"
  have calls: "list_all valid_call ?cs" by simp
  have run: "apply_calls ?cs item_store_init = Inr ?st" by (rule apply_calls_example)
  note inst = toRectangleArray_counts[of ?cs item_store_init ?st]
  have v0: "valid_counts item_store_init" using inst by blast
  have v: "valid_counts ?st" using inst calls v0 run by blast
  have a: "toRectangleArray ?st = [\<lparr>width = 2, height = 1\<rparr>, \<lparr>width = 2, height = 1\<rparr>, \<lparr>width = 1, height = 3\<rparr>]"
    using inst run v by (simp add: numeral_2_eq_2)
  have init: "apply_calls [] item_store_init = Inr item_store_init" by simp
  have b: "toRectangleArray item_store_init = []"
    using toRectangleArray_counts[of "[]" item_store_init item_store_init] init v0
    by (simp add: item_store_init_def)
  from calls v0 run v a b show ?thesis by blast
qed

section \<open>The grid container: indices and lookups\<close>

lemma js_rem_nonneg: "0 \<le> a \<Longrightarrow> 0 < b \<Longrightarrow> js_rem a b = a mod b"
  by (cases "a = 0") (simp_all add: js_rem_def)

lemma indexToRowCol_nonneg:
  assumes "0 < size_cols gs" and "0 \<le> i"
  shows "indexToRowCol gs i = Some (i div int (size_cols gs), i mod int (size_cols gs))"
  using assms floor_divide_of_int_eq[of i "int (size_cols gs)", where ?'a = rat]
  by (simp add: indexToRowCol_def js_rem_nonneg)

lemma int_div_less_bound:
  fixes i c r :: int
  assumes "0 < c" and "i < c * r"
  shows "i div c < r"
proof (rule ccontr)
  assume "\<not> i div c < r"
  then have "r \<le> i div c" by simp
  then have "c * r \<le> c * (i div c)" using assms(1) by (simp add: mult_left_mono)
  also have "\<dots> \<le> i"
    using mult_div_mod_eq[of c i] pos_mod_sign[OF assms(1), of i] by linarith
  finally show False using assms(2) by simp
qed

lemma index_bounds:
  assumes "0 \<le> i" and "i < int r * int c"
  shows "0 < c" and "0 \<le> i div int c" and "i div int c < int r"
    and "0 \<le> i mod int c" and "i mod int c < int c"
proof -
  show c: "0 < c" using assms by (cases c) auto
  then have ci: "0 < int c" by simp
  show "0 \<le> i div int c" using assms(1) ci by (simp add: pos_imp_zdiv_nonneg_iff)
  have "i < int c * int r" using assms(2) by (simp add: mult.commute)
  then show "i div int c < int r" using ci by (rule int_div_less_bound[rotated])
  show "0 \<le> i mod int c" using ci by simp
  show "i mod int c < int c" using ci by simp
qed

text \<open>
  Claim C7. With a positive number of columns and an index that is not negative,
  \<open>indexToRowCol\<close> gives \<open>row = floor (index / cols)\<close> and \<open>col = index mod cols\<close>, and
  \<open>row * cols + col\<close> is the index again. For \<open>0 \<le> index < rows * cols\<close> the number of
  columns is positive, so all of this holds, and the row and the column are inside the
  grid.
\<close>

theorem indexToRowCol_roundtrip:
  "(0 < size_cols gs \<and> 0 \<le> i \<longrightarrow>
      (\<exists>row col. indexToRowCol gs i = Some (row, col)
         \<and> row = \<lfloor>real_of_int i / real (size_cols gs)\<rfloor>
         \<and> col = i mod int (size_cols gs)
         \<and> row * int (size_cols gs) + col = i))
   \<and> (0 \<le> i \<and> i < int (size_rows gs) * int (size_cols gs) \<longrightarrow>
      (\<exists>row col. indexToRowCol gs i = Some (row, col)
         \<and> row = \<lfloor>real_of_int i / real (size_cols gs)\<rfloor>
         \<and> col = i mod int (size_cols gs)
         \<and> row * int (size_cols gs) + col = i
         \<and> 0 \<le> row \<and> row < int (size_rows gs) \<and> 0 \<le> col \<and> col < int (size_cols gs)))"
proof -
  have fl: "\<lfloor>real_of_int i / real (size_cols gs)\<rfloor> = i div int (size_cols gs)"
    using floor_divide_of_int_eq[of i "int (size_cols gs)", where ?'a = real] by simp
  have 1: "\<exists>row col. indexToRowCol gs i = Some (row, col)
         \<and> row = \<lfloor>real_of_int i / real (size_cols gs)\<rfloor>
         \<and> col = i mod int (size_cols gs)
         \<and> row * int (size_cols gs) + col = i"
    if "0 < size_cols gs" and "0 \<le> i"
    using indexToRowCol_nonneg[OF that] fl by simp
  have 2: "\<exists>row col. indexToRowCol gs i = Some (row, col)
         \<and> row = \<lfloor>real_of_int i / real (size_cols gs)\<rfloor>
         \<and> col = i mod int (size_cols gs)
         \<and> row * int (size_cols gs) + col = i
         \<and> 0 \<le> row \<and> row < int (size_rows gs) \<and> 0 \<le> col \<and> col < int (size_cols gs)"
    if "0 \<le> i" and "i < int (size_rows gs) * int (size_cols gs)"
  proof -
    note b = index_bounds[OF that]
    show ?thesis using indexToRowCol_nonneg[OF b(1) that(1)] b fl by simp
  qed
  from 1 2 show ?thesis by blast
qed

theorem indexToRowCol_roundtrip_witness:
  "(0::int) \<le> 31 \<and> (31::int) < int (size_rows grid_store_init) * int (size_cols grid_store_init)
   \<and> indexToRowCol grid_store_init 31 = Some (3, 4) \<and> (3::int) * 9 + 4 = 31"
  using indexToRowCol_roundtrip[where gs = grid_store_init and i = 31]
  by (simp add: grid_store_init_def)

lemma grid_cell_not_MappingError: "grid_cell d rc \<noteq> Inl MappingError"
  by (simp add: grid_cell_def split: option.splits prod.splits)

lemma grid_cell_at:
  assumes "0 \<le> row" and "0 \<le> col"
  shows "grid_cell d (Some (row, col)) =
    (if length d \<le> nat row then Inl TypeError
     else if length (d ! nat row) \<le> nat col then Inr Undefined
     else Inr (Datum (d ! nat row ! nat col)))"
  using assms by (auto simp: grid_cell_def)

lemma grid_cell_in_range:
  assumes "0 \<le> i" and "i < int (size_rows gs) * int (size_cols gs)"
  shows "grid_cell d (indexToRowCol gs i) =
    (if length d \<le> nat (i div int (size_cols gs)) then Inl TypeError
     else if length (d ! nat (i div int (size_cols gs))) \<le> nat (i mod int (size_cols gs))
       then Inr Undefined
     else Inr (Datum (d ! nat (i div int (size_cols gs)) ! nat (i mod int (size_cols gs)))))"
proof -
  note b = index_bounds[OF assms]
  show ?thesis
    using indexToRowCol_nonneg[OF b(1) assms(1)] grid_cell_at[OF b(2) b(4), of d] by simp
qed

lemma grid_matches_cell:
  assumes "grid_matches gs g" and "0 \<le> i" and "i < int (size_rows gs) * int (size_cols gs)"
  shows "nat (i div int (size_cols gs)) < length (data g)"
    and "nat (i mod int (size_cols gs)) < length (data g ! nat (i div int (size_cols gs)))"
proof -
  note b = index_bounds[OF assms(2,3)]
  show r: "nat (i div int (size_cols gs)) < length (data g)"
    using assms(1) b(2,3) by (auto simp: grid_matches_def)
  then have "length (data g ! nat (i div int (size_cols gs))) = size_cols gs"
    using assms(1) by (simp add: grid_matches_def list_all_length)
  then show "nat (i mod int (size_cols gs)) < length (data g ! nat (i div int (size_cols gs)))"
    using b(4,5) by auto
qed

text \<open>
  Claim C1, as amended. \<open>getProbability\<close> and \<open>getEntropy\<close> check no dimension and
  never fail with a MappingError. Without a result they give \<open>null\<close>. With a result,
  for a flat index in \<open>0 ..< rows * cols\<close> of the store, they read
  \<open>data[index div cols][index mod cols]\<close> of their own grid: a TypeError when the data
  has no such row, \<open>undefined\<close> when the row has no such column, and the datum there
  otherwise; so a grid of the store's dimensions gives the datum of every cell.
\<close>

theorem lookup_no_dimension_check:
  "getProbability gs None i = Inr Null \<and> getEntropy gs None i = Inr Null
   \<and> getProbability gs res i \<noteq> Inl MappingError \<and> getEntropy gs res i \<noteq> Inl MappingError
   \<and> (0 \<le> i \<and> i < int (size_rows gs) * int (size_cols gs) \<longrightarrow>
        (let row = nat (i div int (size_cols gs)); col = nat (i mod int (size_cols gs));
             p = data (probabilities r); e = data (entropy r)
         in getProbability gs (Some r) i =
              (if length p \<le> row then Inl TypeError
               else if length (p ! row) \<le> col then Inr Undefined
               else Inr (Datum (p ! row ! col)))
          \<and> getEntropy gs (Some r) i =
              (if length e \<le> row then Inl TypeError
               else if length (e ! row) \<le> col then Inr Undefined
               else Inr (Datum (e ! row ! col)))
          \<and> (grid_matches gs (probabilities r) \<longrightarrow>
                getProbability gs (Some r) i = Inr (Datum (p ! row ! col)))
          \<and> (grid_matches gs (entropy r) \<longrightarrow>
                getEntropy gs (Some r) i = Inr (Datum (e ! row ! col)))))"
proof (intro conjI impI)
  show "getProbability gs None i = Inr Null" by (simp add: getProbability_def)
  show "getEntropy gs None i = Inr Null" by (simp add: getEntropy_def)
  show "getProbability gs res i \<noteq> Inl MappingError"
    by (cases res) (simp_all add: getProbability_def grid_cell_not_MappingError)
  show "getEntropy gs res i \<noteq> Inl MappingError"
    by (cases res) (simp_all add: getEntropy_def grid_cell_not_MappingError)
next
  assume a: "0 \<le> i \<and> i < int (size_rows gs) * int (size_cols gs)"
  then have i0: "0 \<le> i" and i1: "i < int (size_rows gs) * int (size_cols gs)" by simp_all
  have p: "getProbability gs (Some r) i = grid_cell (data (probabilities r)) (indexToRowCol gs i)"
    by (simp add: getProbability_def)
  have e: "getEntropy gs (Some r) i = grid_cell (data (entropy r)) (indexToRowCol gs i)"
    by (simp add: getEntropy_def)
  show "let row = nat (i div int (size_cols gs)); col = nat (i mod int (size_cols gs));
             p = data (probabilities r); e = data (entropy r)
         in getProbability gs (Some r) i =
              (if length p \<le> row then Inl TypeError
               else if length (p ! row) \<le> col then Inr Undefined
               else Inr (Datum (p ! row ! col)))
          \<and> getEntropy gs (Some r) i =
              (if length e \<le> row then Inl TypeError
               else if length (e ! row) \<le> col then Inr Undefined
               else Inr (Datum (e ! row ! col)))
          \<and> (grid_matches gs (probabilities r) \<longrightarrow>
                getProbability gs (Some r) i = Inr (Datum (p ! row ! col)))
          \<and> (grid_matches gs (entropy r) \<longrightarrow>
                getEntropy gs (Some r) i = Inr (Datum (e ! row ! col)))"
    unfolding Let_def p e grid_cell_in_range[OF i0 i1]
    using grid_matches_cell[OF _ i0 i1, of "probabilities r"]
      grid_matches_cell[OF _ i0 i1, of "entropy r"]
    by auto
qed

theorem lookup_no_dimension_check_witness:
  "(0::int) \<le> 1 \<and> (1::int) < int 1 * int 2
   \<and> grid_matches \<lparr>size_rows = 1, size_cols = 2, mask_ref = [[False, False]]\<rparr>
        \<lparr>grid_rows = 1, grid_cols = 2,
           data = [[(1 / 4, (1, 2, 3)), (3 / 4, (4, 5, 6))]] :: panel_datum list list\<rparr>
   \<and> getProbability \<lparr>size_rows = 1, size_cols = 2, mask_ref = [[False, False]]\<rparr>
        (Some \<lparr>probabilities =
                 \<lparr>grid_rows = 1, grid_cols = 2, data = [[(1 / 4, (1, 2, 3)), (3 / 4, (4, 5, 6))]]\<rparr>,
               entropy =
                 \<lparr>grid_rows = 1, grid_cols = 2, data = [[(1 / 4, (1, 2, 3)), (3 / 4, (4, 5, 6))]]\<rparr>\<rparr>) 1
       = Inr (Datum (3 / 4, (4, 5, 6)))
   \<and> getEntropy \<lparr>size_rows = 1, size_cols = 2, mask_ref = [[False, False]]\<rparr>
        (Some \<lparr>probabilities =
                 \<lparr>grid_rows = 1, grid_cols = 2, data = [[(1 / 4, (1, 2, 3)), (3 / 4, (4, 5, 6))]]\<rparr>,
               entropy =
                 \<lparr>grid_rows = 1, grid_cols = 2, data = [[(1 / 4, (1, 2, 3)), (3 / 4, (4, 5, 6))]]\<rparr>\<rparr>) 0
       = Inr (Datum (1 / 4, (1, 2, 3)))"
proof -
  let ?gs = "\<lparr>size_rows = 1, size_cols = 2, mask_ref = [[False, False]]\<rparr>"
  let ?g = "\<lparr>grid_rows = 1, grid_cols = 2, data = [[(1 / 4 :: rat, (1, 2, 3) :: Color), (3 / 4, (4, 5, 6))]]\<rparr>"
  let ?r = "\<lparr>probabilities = ?g, entropy = ?g\<rparr>"
  have m: "grid_matches ?gs ?g" by (simp add: grid_matches_def)
  have a: "getProbability ?gs (Some ?r) 1 = Inr (Datum (3 / 4, (4, 5, 6)))"
    using lookup_no_dimension_check[where gs = ?gs and i = 1 and r = ?r] m by (simp add: Let_def)
  have b: "getEntropy ?gs (Some ?r) 0 = Inr (Datum (1 / 4, (1, 2, 3)))"
    using lookup_no_dimension_check[where gs = ?gs and i = 0 and r = ?r] m by (simp add: Let_def)
  from m a b show ?thesis by simp
qed

text \<open>
  The claim as stated fails on the initial 5 by 9 store and a result whose probability
  grid has rows of 8 columns and whose entropy grid has 4 rows: index 8 reads past the
  end of a probability row and gets \<open>undefined\<close> with no error, and index 36 finds no
  entropy row and throws a TypeError, not a MappingError.
\<close>

theorem lookup_mismatch_no_MappingError:
  "\<not> grid_matches grid_store_init
        \<lparr>grid_rows = 5, grid_cols = 8,
           data = replicate 5 (replicate 8 (1 / 2, (0, 0, 0))) :: panel_datum list list\<rparr>
   \<and> getProbability grid_store_init
        (Some \<lparr>probabilities =
                 \<lparr>grid_rows = 5, grid_cols = 8, data = replicate 5 (replicate 8 (1 / 2, (0, 0, 0)))\<rparr>,
               entropy =
                 \<lparr>grid_rows = 4, grid_cols = 9, data = replicate 4 (replicate 9 (1 / 2, (0, 0, 0)))\<rparr>\<rparr>) 8
       = Inr Undefined
   \<and> getEntropy grid_store_init
        (Some \<lparr>probabilities =
                 \<lparr>grid_rows = 5, grid_cols = 8, data = replicate 5 (replicate 8 (1 / 2, (0, 0, 0)))\<rparr>,
               entropy =
                 \<lparr>grid_rows = 4, grid_cols = 9, data = replicate 4 (replicate 9 (1 / 2, (0, 0, 0)))\<rparr>\<rparr>) 36
       = Inl TypeError"
proof -
  have c: "0 < size_cols grid_store_init" by (simp add: grid_store_init_def)
  have i8: "indexToRowCol grid_store_init 8 = Some (0, 8)"
    using indexToRowCol_nonneg[OF c, of 8] by (simp add: grid_store_init_def)
  have i36: "indexToRowCol grid_store_init 36 = Some (4, 0)"
    using indexToRowCol_nonneg[OF c, of 36] by (simp add: grid_store_init_def)
  have m: "\<not> grid_matches grid_store_init
        \<lparr>grid_rows = 5, grid_cols = 8,
           data = replicate 5 (replicate 8 (1 / 2, (0, 0, 0))) :: panel_datum list list\<rparr>"
    by (simp add: grid_matches_def grid_store_init_def)
  show ?thesis
    using m by (simp add: getProbability_def getEntropy_def i8 i36 grid_cell_def)
qed

section \<open>The panel item: text colour and label\<close>

lemma Math_round_thousandths: "Math_round (rat_of_int n / 1000) = (n + 500) div 1000"
proof -
  have "\<lfloor>rat_of_int n / 1000 + 1 / 2\<rfloor> = \<lfloor>rat_of_int (n + 500) / rat_of_int 1000\<rfloor>"
    by (simp add: add_divide_distrib)
  also have "\<dots> = (n + 500) div 1000" by (rule floor_divide_of_int_eq)
  finally show ?thesis by (simp add: Math_round_def)
qed

lemma round_thousandths: "round (real_of_int n / 1000) = (n + 500) div 1000"
proof -
  have "\<lfloor>real_of_int n / 1000 + 1 / 2\<rfloor> = \<lfloor>real_of_int (n + 500) / real_of_int 1000\<rfloor>"
    by (simp add: add_divide_distrib)
  also have "\<dots> = (n + 500) div 1000" by (rule floor_divide_of_int_eq)
  finally show ?thesis by (simp add: round_def)
qed

lemma brightness_int: "brightness (r, g, b) = (r * 299 + g * 587 + b * 114 + 500) div 1000"
  by (simp only: brightness_def prod.case Math_round_thousandths)

lemma brightness_round:
  "brightness (r, g, b) = round (real_of_int (r * 299 + g * 587 + b * 114) / 1000)"
  by (simp only: brightness_int round_thousandths)

text \<open>
  Claim C8. Without a datum the text colour is black. With a datum of colour
  \<open>(r, g, b)\<close>, in particular with each channel in \<open>0 .. 255\<close>, the brightness is
  \<open>round ((r * 299 + g * 587 + b * 114) / 1000)\<close>, and the text is black when the
  brightness is above 125 and white otherwise: black on \<open>(255, 255, 255)\<close>, white on
  \<open>(0, 0, 0)\<close>, white at a brightness of exactly 125 and black at 126.
\<close>

theorem textColor_brightness:
  "textColor None = ''black''
   \<and> textColor (Some (v, (r, g, b))) =
       (if round (real_of_int (r * 299 + g * 587 + b * 114) / 1000) > 125
        then ''black'' else ''white'')
   \<and> textColor (Some (v, (255, 255, 255))) = ''black''
   \<and> textColor (Some (v, (0, 0, 0))) = ''white''
   \<and> brightness (125, 125, 125) = 125
   \<and> textColor (Some (v, (125, 125, 125))) = ''white''
   \<and> brightness (126, 126, 126) = 126
   \<and> textColor (Some (v, (126, 126, 126))) = ''black''"
proof (intro conjI)
  show "textColor None = ''black''" by (simp add: textColor_def)
  show "textColor (Some (v, (r, g, b))) =
       (if round (real_of_int (r * 299 + g * 587 + b * 114) / 1000) > 125
        then ''black'' else ''white'')"
    by (simp only: textColor_def option.case prod.case brightness_round)
qed (simp_all add: textColor_def brightness_int)

lemma floor_rat_numeral: "\<lfloor>numeral a / numeral b :: rat\<rfloor> = numeral a div numeral b"
  using floor_divide_of_int_eq[of "numeral a" "numeral b", where ?'a = rat] by simp

lemma digit_char_is_digit: "d < 10 \<Longrightarrow> is_digit (digit_char d)"
  unfolding is_digit_def digit_char_def by (rule nth_mem) simp

lemma is_digit_not_minus: "is_digit c \<Longrightarrow> c \<noteq> CHR ''-''"
  by (auto simp: is_digit_def)

lemma decimal_small: "n < 10 \<Longrightarrow> decimal n = [digit_char n]"
  by (subst decimal_unfold) simp

lemma decimal_step: "10 \<le> n \<Longrightarrow> decimal n = decimal (n div 10) @ [digit_char (n mod 10)]"
  by simp

lemma decimal_digits: "list_all is_digit (decimal n) \<and> decimal n \<noteq> []"
proof (induction n rule: decimal.induct)
  case (1 n)
  then show ?case by (simp add: digit_char_is_digit)
next
  case (2 n)
  then show ?case by (simp add: digit_char_is_digit)
qed

lemma decimal_length: "length (decimal n) \<le> 2 \<longleftrightarrow> n < 100"
proof (cases "n < 10")
  case True
  then show ?thesis by (simp add: decimal_small)
next
  case ge10: False
  show ?thesis
  proof (cases "n < 100")
    case True
    then have "n div 10 < 10" by simp
    then show ?thesis using ge10 True by (simp add: decimal_step decimal_small)
  next
    case False
    then have "10 \<le> n div 10" by simp
    then have "decimal n = decimal (n div 10 div 10) @ [digit_char (n div 10 mod 10)] @ [digit_char (n mod 10)]"
      using ge10 by (simp add: decimal_step)
    moreover have "decimal (n div 10 div 10) \<noteq> []" using decimal_digits by blast
    ultimately show ?thesis using False by (cases "decimal (n div 10 div 10)") simp_all
  qed
qed

text \<open>The padded digits of \<open>n\<close>, cut before the last two.\<close>

lemma pad_split:
  fixes n :: nat
  defines "m \<equiv> (if length (decimal n) \<le> 2
                  then replicate (3 - length (decimal n)) (CHR ''0'') @ decimal n else decimal n)"
  shows "take (length m - 2) m = decimal (n div 100)"
    and "drop (length m - 2) m = [digit_char (n div 10 mod 10), digit_char (n mod 10)]"
proof -
  have "take (length m - 2) m = decimal (n div 100)
      \<and> drop (length m - 2) m = [digit_char (n div 10 mod 10), digit_char (n mod 10)]"
  proof (cases "n < 10")
    case True
    then have "m = [CHR ''0'', CHR ''0'', digit_char n]"
      by (simp add: m_def decimal_small numeral_2_eq_2)
    then show ?thesis using True by (simp add: decimal_small digit_char_def)
  next
    case ge10: False
    show ?thesis
    proof (cases "n < 100")
      case True
      then have d: "decimal n = [digit_char (n div 10), digit_char (n mod 10)]"
        using ge10 by (simp add: decimal_step decimal_small)
      then have "m = [CHR ''0'', digit_char (n div 10), digit_char (n mod 10)]"
        by (simp add: m_def)
      then show ?thesis using True by (simp add: decimal_small digit_char_def)
    next
      case False
      then have d: "decimal n = decimal (n div 100) @ [digit_char (n div 10 mod 10), digit_char (n mod 10)]"
      proof -
        have "10 \<le> n div 10" using False by simp
        moreover have "n div 10 div 10 = n div 100" by arith
        ultimately show ?thesis
          using ge10 by (simp add: decimal_step[of n] decimal_step[of "n div 10"])
      qed
      have "m = decimal n" using False decimal_length[of n] by (simp add: m_def)
      then show ?thesis by (simp add: d)
    qed
  qed
  then show "take (length m - 2) m = decimal (n div 100)"
    and "drop (length m - 2) m = [digit_char (n div 10 mod 10), digit_char (n mod 10)]"
    by simp_all
qed

lemma toFixed2_fixed:
  assumes "\<bar>v\<bar> < 10 ^ 21"
  shows "toFixed2 numberToString v =
    (if v < 0 then ''-'' else []) @ decimal (nat \<lfloor>\<bar>v\<bar> * 100 + 1 / 2\<rfloor> div 100) @ ''.'' @
      [digit_char (nat \<lfloor>\<bar>v\<bar> * 100 + 1 / 2\<rfloor> div 10 mod 10),
       digit_char (nat \<lfloor>\<bar>v\<bar> * 100 + 1 / 2\<rfloor> mod 10)]"
  using assms pad_split[of "nat \<lfloor>\<bar>v\<bar> * 100 + 1 / 2\<rfloor>"]
  by (simp add: toFixed2_def Let_def)

lemma two_decimals_shape:
  assumes "list_all is_digit ip" and "ip \<noteq> []" and "is_digit a" and "is_digit b"
  shows "two_decimals (ip @ ''.'' @ [a, b])" and "two_decimals (''-'' @ ip @ ''.'' @ [a, b])"
proof -
  obtain c cs where ip: "ip = c # cs" using assms(2) by (cases ip) auto
  then have "c \<noteq> CHR ''-''" using assms(1) by (simp add: is_digit_not_minus)
  then show "two_decimals (ip @ ''.'' @ [a, b])"
    using assms ip by (simp add: two_decimals_def Let_def nth_append)
  show "two_decimals (''-'' @ ip @ ''.'' @ [a, b])"
    using assms ip by (simp add: two_decimals_def Let_def nth_append)
qed

lemma toFixed2_two_decimals:
  assumes "\<bar>v\<bar> < 10 ^ 21"
  shows "two_decimals (toFixed2 numberToString v)"
proof -
  define n where "n = nat \<lfloor>\<bar>v\<bar> * 100 + 1 / 2\<rfloor>"
  have eq: "toFixed2 numberToString v =
    (if v < 0 then ''-'' else []) @ decimal (n div 100) @ ''.'' @
      [digit_char (n div 10 mod 10), digit_char (n mod 10)]"
    unfolding n_def by (rule toFixed2_fixed[OF assms])
  have d: "list_all is_digit (decimal (n div 100))" and ne: "decimal (n div 100) \<noteq> []"
    using decimal_digits[of "n div 100"] by simp_all
  have a: "is_digit (digit_char (n div 10 mod 10))" and b: "is_digit (digit_char (n mod 10))"
    by (simp_all add: digit_char_is_digit)
  show ?thesis
  proof (cases "v < 0")
    case True
    then show ?thesis using two_decimals_shape(2)[OF d ne a b] by (simp only: eq if_True)
  next
    case False
    then show ?thesis using two_decimals_shape(1)[OF d ne a b] by (simp only: eq if_False append_Nil)
  qed
qed

text \<open>
  Claim C9, as amended. Without a datum the label is the empty string. With a datum
  whose value is below \<open>10 ^ 21\<close> in absolute value, the label is a minus sign when the
  value is negative, the digits of the hundredths nearest to the absolute value (a tie
  going up) before the last two, a point, and the last two digits: a string with exactly
  two digits after the decimal point. So 0.5 gives \<open>0.50\<close> and 1 gives \<open>1.00\<close>.
\<close>

theorem label_two_decimals:
  "label numberToString None = []
   \<and> (\<bar>v\<bar> < 10 ^ 21 \<longrightarrow>
        label numberToString (Some (v, rgb)) =
          (if v < 0 then ''-'' else []) @ decimal (nat \<lfloor>\<bar>v\<bar> * 100 + 1 / 2\<rfloor> div 100) @ ''.'' @
            [digit_char (nat \<lfloor>\<bar>v\<bar> * 100 + 1 / 2\<rfloor> div 10 mod 10),
             digit_char (nat \<lfloor>\<bar>v\<bar> * 100 + 1 / 2\<rfloor> mod 10)]
        \<and> two_decimals (label numberToString (Some (v, rgb))))
   \<and> label numberToString (Some (1 / 2, rgb)) = ''0.50''
   \<and> label numberToString (Some (1, rgb)) = ''1.00''"
proof (intro conjI impI)
  show "label numberToString None = []" by (simp add: label_def)
next
  assume a: "\<bar>v\<bar> < 10 ^ 21"
  show "label numberToString (Some (v, rgb)) =
          (if v < 0 then ''-'' else []) @ decimal (nat \<lfloor>\<bar>v\<bar> * 100 + 1 / 2\<rfloor> div 100) @ ''.'' @
            [digit_char (nat \<lfloor>\<bar>v\<bar> * 100 + 1 / 2\<rfloor> div 10 mod 10),
             digit_char (nat \<lfloor>\<bar>v\<bar> * 100 + 1 / 2\<rfloor> mod 10)]"
    using toFixed2_fixed[OF a] by (simp add: label_def)
  show "two_decimals (label numberToString (Some (v, rgb)))"
    using toFixed2_two_decimals[OF a] by (simp add: label_def)
next
  have "\<bar>1 / 2 :: rat\<bar> < 10 ^ 21" by simp
  from toFixed2_fixed[OF this]
  show "label numberToString (Some (1 / 2, rgb)) = ''0.50''"
    by (simp add: label_def floor_rat_numeral decimal_small digit_char_def)
next
  have "\<bar>1 :: rat\<bar> < 10 ^ 21" by simp
  from toFixed2_fixed[OF this]
  show "label numberToString (Some (1, rgb)) = ''1.00''"
    by (simp add: label_def floor_rat_numeral decimal_small digit_char_def)
qed

theorem label_two_decimals_witness:
  "\<bar>- 3 / 8 :: rat\<bar> < 10 ^ 21
   \<and> label toString_1e21 (Some (- 3 / 8, (0, 0, 0))) = ''-0.38''
   \<and> two_decimals (label toString_1e21 (Some (- 3 / 8, (0, 0, 0))))"
proof -
  have h: "\<bar>- 3 / 8 :: rat\<bar> < 10 ^ 21" by simp
  have n: "nat \<lfloor>\<bar>- 3 / 8 :: rat\<bar> * 100 + 1 / 2\<rfloor> = 38" by simp
  show ?thesis
    using h label_two_decimals[of toString_1e21 "- 3 / 8" "(0, 0, 0)"]
    by (simp add: n decimal_small digit_char_def two_decimals_def is_digit_def)
qed

text \<open>
  The claim as stated fails from \<open>10 ^ 21\<close> on, where \<open>toFixed\<close> hands the number to
  \<open>Number::toString\<close>: for the value \<open>10 ^ 21\<close> that is the string \<open>1e+21\<close>, which has
  no decimal point.
\<close>

theorem label_exponent_notation:
  "label toString_1e21 (Some (10 ^ 21, (0, 0, 0))) = ''1e+21''
   \<and> \<not> two_decimals (label toString_1e21 (Some (10 ^ 21, (0, 0, 0))))"
  by (simp add: label_def toFixed2_def toString_1e21_def two_decimals_def is_digit_def)

section \<open>The page: the request and the subscription\<close>

text \<open>
  Claim C2 against the code. When the request fails, \<open>requestInference\<close> ends with the
  rejection and the page is as \<open>requestInference_begin\<close> left it: the displayed result
  is the one from before, but the waiting flag is still set. Only a fulfilled request
  clears the flag.
\<close>

theorem requestInference_rejected:
  "requestInference_resume Rejected (fst (requestInference_begin gs st vs)) =
     (Some FetchError, vs\<lparr>isShowWaitIndicator := True\<rparr>)
   \<and> isShowWaitIndicator (snd (requestInference_resume Rejected (fst (requestInference_begin gs st vs))))
   \<and> estimates (snd (requestInference_resume Rejected (fst (requestInference_begin gs st vs)))) =
       estimates vs
   \<and> requestInference_resume (Fulfilled d) (fst (requestInference_begin gs st vs)) =
     (None, vs\<lparr>estimates := Some d, isShowWaitIndicator := False\<rparr>)"
  by (simp add: requestInference_resume_def requestInference_begin_def)

lemma on_grid_mutation_shape:
  assumes "mask_shape gs"
  shows "on_grid_mutation gs vs =
    Inr (if \<forall>row \<in> set (mask_ref gs). \<forall>c \<in> set row. \<not> c then vs\<lparr>estimates := None\<rparr> else vs)"
  by (simp add: on_grid_mutation_def isAllMasked_shape[OF assms])

lemma run_action_shape:
  assumes "mask_shape gs"
  shows "\<exists>gs'. run_action a gs = Inr gs' \<and> mask_shape gs'"
proof (cases a)
  case (FlipMask x y)
  then show ?thesis using flipMask_shape[OF assms, of x y] by auto
next
  case Reset
  then show ?thesis by (simp add: mask_shape_reset)
qed

text \<open>
  Claim C3. On a store whose mask has the declared shape, the callback of the
  subscription returns normally, and when \<open>isAllMasked\<close> is \<open>true\<close> of the store it has
  set the displayed result to absent, whatever the waiting flag, which it leaves as it
  was. So after every action that writes to the mask (an in-range \<open>flipMask\<close> or a
  \<open>reset\<close>) and the callback that follows it, no result is displayed if the mask is
  all \<open>false\<close>; after \<open>reset\<close> that is always so.
\<close>

theorem observer_clears_result:
  "(mask_shape gs \<longrightarrow>
      (\<exists>vs'. on_grid_mutation gs vs = Inr vs'
         \<and> (isAllMasked gs = Inr True \<longrightarrow> estimates vs' = None)
         \<and> (isAllMasked gs = Inr False \<longrightarrow> vs' = vs)
         \<and> isShowWaitIndicator vs' = isShowWaitIndicator vs))
   \<and> (mask_shape gs \<and> mutates a gs \<longrightarrow>
      (\<exists>gs' vs'. dispatch a (gs, vs) = Inr (gs', vs') \<and> run_action a gs = Inr gs'
         \<and> (isAllMasked gs' = Inr True \<longrightarrow> estimates vs' = None)
         \<and> isShowWaitIndicator vs' = isShowWaitIndicator vs))
   \<and> (\<exists>vs'. dispatch Reset (gs, vs) = Inr (reset gs, vs') \<and> estimates vs' = None
         \<and> isShowWaitIndicator vs' = isShowWaitIndicator vs)"
proof (intro conjI impI)
  assume sh: "mask_shape gs"
  show "\<exists>vs'. on_grid_mutation gs vs = Inr vs'
         \<and> (isAllMasked gs = Inr True \<longrightarrow> estimates vs' = None)
         \<and> (isAllMasked gs = Inr False \<longrightarrow> vs' = vs)
         \<and> isShowWaitIndicator vs' = isShowWaitIndicator vs"
    by (auto simp: on_grid_mutation_shape[OF sh] isAllMasked_shape[OF sh])
next
  assume a: "mask_shape gs \<and> mutates a gs"
  then obtain gs' where r: "run_action a gs = Inr gs'" and sh': "mask_shape gs'"
    using run_action_shape[of gs a] by blast
  have "dispatch a (gs, vs) =
      Inr (gs', if \<forall>row \<in> set (mask_ref gs'). \<forall>c \<in> set row. \<not> c
                then vs\<lparr>estimates := None\<rparr> else vs)"
    using a r by (simp add: dispatch_def on_grid_mutation_shape[OF sh'])
  then show "\<exists>gs' vs'. dispatch a (gs, vs) = Inr (gs', vs') \<and> run_action a gs = Inr gs'
         \<and> (isAllMasked gs' = Inr True \<longrightarrow> estimates vs' = None)
         \<and> isShowWaitIndicator vs' = isShowWaitIndicator vs"
    using r by (auto simp: isAllMasked_shape[OF sh'])
next
  show "\<exists>vs'. dispatch Reset (gs, vs) = Inr (reset gs, vs') \<and> estimates vs' = None
         \<and> isShowWaitIndicator vs' = isShowWaitIndicator vs"
    by (simp add: dispatch_def on_grid_mutation_def isAllMasked_reset)
qed

theorem observer_clears_result_witness:
  "mask_shape \<lparr>size_rows = 1, size_cols = 2, mask_ref = [[True, False]]\<rparr>
   \<and> mutates (FlipMask 0 0) \<lparr>size_rows = 1, size_cols = 2, mask_ref = [[True, False]]\<rparr>
   \<and> (\<exists>vs'. dispatch (FlipMask 0 0)
          (\<lparr>size_rows = 1, size_cols = 2, mask_ref = [[True, False]]\<rparr>,
           \<lparr>estimates = (Some \<lparr>probabilities = \<lparr>grid_rows = 1, grid_cols = 2, data = [[(1 / 2, (0, 0, 0)), (1 / 2, (0, 0, 0))]]\<rparr>,
                              entropy = \<lparr>grid_rows = 1, grid_cols = 2, data = [[(1, (9, 9, 9)), (1, (9, 9, 9))]]\<rparr>\<rparr>),
             isShowWaitIndicator = True\<rparr>) =
          Inr (\<lparr>size_rows = 1, size_cols = 2, mask_ref = [[False, False]]\<rparr>, vs')
        \<and> estimates vs' = None \<and> isShowWaitIndicator vs')"
proof -
  let ?gs = "\<lparr>size_rows = 1, size_cols = 2, mask_ref = [[True, False]]\<rparr>"
  let ?gs' = "\<lparr>size_rows = 1, size_cols = 2, mask_ref = [[False, False]]\<rparr>"
  let ?vs = "\<lparr>estimates = (Some \<lparr>probabilities = \<lparr>grid_rows = 1, grid_cols = 2, data = [[(1 / 2, (0, 0, 0)), (1 / 2, (0, 0, 0))]]\<rparr>,
                              entropy = \<lparr>grid_rows = 1, grid_cols = 2, data = [[(1, (9, 9, 9)), (1, (9, 9, 9))]]\<rparr>\<rparr>),
             isShowWaitIndicator = True\<rparr>"
  have sh: "mask_shape ?gs" and sh': "mask_shape ?gs'" by (simp_all add: mask_shape_def)
  have m: "mutates (FlipMask 0 0) ?gs" by (simp add: in_range_def)
  have f: "run_action (FlipMask 0 0) ?gs = Inr ?gs'" by (simp add: flipMask_def)
  have all: "isAllMasked ?gs' = Inr True" using isAllMasked_shape[OF sh'] by simp
  from observer_clears_result[of ?gs ?vs "FlipMask 0 0"] sh m f all
  have "\<exists>vs'. dispatch (FlipMask 0 0) (?gs, ?vs) = Inr (?gs', vs')
        \<and> estimates vs' = None \<and> isShowWaitIndicator vs'"
    by auto
  with sh m show ?thesis by blast
qed

end
